theory Spec2Isabelle
  imports Complex_Main
begin

section \<open>Python values\<close>

text \<open>
  The values \<^verbatim>\<open>json.loads\<close> produces: \<^verbatim>\<open>None\<close>, \<^verbatim>\<open>bool\<close>, \<^verbatim>\<open>int\<close>,
  \<^verbatim>\<open>float\<close>, \<^verbatim>\<open>str\<close>, \<^verbatim>\<open>list\<close> and \<^verbatim>\<open>dict\<close>. A decoded object is kept as the
  list of its items (the keys are distinct, as in a Python dict). Floats are idealised
  as real numbers; the non-standard literal NaN is left out.
\<close>

datatype json =
    JNull
  | JBool bool
  | JInt int
  | JFloat real
  | JStr string
  | JArr "json list"
  | JObj "(string \<times> json) list"

text \<open>The exceptions that can reach the handlers of \<^verbatim>\<open>process_message\<close>.\<close>

datatype exn = JSONDecodeError | TypeError | ZeroDivisionError | OtherError string

text \<open>
  What a Python dict compares when it looks a key up. Lists and dicts are unhashable.
  Numbers and booleans are one key when they are equal as numbers
  (\<^verbatim>\<open>True == 1 == 1.0\<close>, with equal hashes).
\<close>

datatype hkey = HNone | HNum real | HStr string

fun hash_key :: "json \<Rightarrow> hkey option" where
  "hash_key JNull = Some HNone"
| "hash_key (JBool b) = Some (HNum (if b then 1 else 0))"
| "hash_key (JInt i) = Some (HNum (real_of_int i))"
| "hash_key (JFloat r) = Some (HNum r)"
| "hash_key (JStr s) = Some (HStr s)"
| "hash_key (JArr xs) = None"
| "hash_key (JObj kvs) = None"

text \<open>\<^verbatim>\<open>message_dict.get(key, default)\<close> on a decoded object.\<close>

definition dict_get :: "(string \<times> json) list \<Rightarrow> string \<Rightarrow> json \<Rightarrow> json" where
  "dict_get kvs k dflt = (case map_of kvs k of Some v \<Rightarrow> v | None \<Rightarrow> dflt)"

section \<open>The aggregate tables\<close>

text \<open>
  \<^verbatim>\<open>author_counts = defaultdict(int)\<close> and \<^verbatim>\<open>author_sentiments = defaultdict(list)\<close>.
  A Python dict keeps its items in the order of insertion and keeps the key object that
  was inserted first, so a table is the list of its items in that order.
\<close>

type_synonym 'v table = "(json \<times> 'v) list"

fun lookup :: "'v table \<Rightarrow> json \<Rightarrow> 'v option" where
  "lookup [] k = None"
| "lookup ((k', v) # d) k = (if hash_key k' = hash_key k then Some v else lookup d k)"

fun store :: "'v table \<Rightarrow> json \<Rightarrow> 'v \<Rightarrow> 'v table" where
  "store [] k v = [(k, v)]"
| "store ((k', v') # d) k v =
     (if hash_key k' = hash_key k then (k', v) # d else (k', v') # store d k v)"

text \<open>
  \<^verbatim>\<open>d[k]\<close> on a defaultdict: an unhashable key raises \<^verbatim>\<open>TypeError\<close>; a missing key
  is inserted with the default value, which is returned.
\<close>

definition defaultdict_getitem :: "'v \<Rightarrow> 'v table \<Rightarrow> json \<Rightarrow> exn + ('v \<times> 'v table)" where
  "defaultdict_getitem dflt d k =
     (if hash_key k = None then Inl TypeError
      else case lookup d k of
             Some v \<Rightarrow> Inr (v, d)
           | None \<Rightarrow> Inr (dflt, store d k dflt))"

text \<open>\<^verbatim>\<open>author_sentiments[author].append(sentiment_score)\<close>\<close>

definition append_score :: "real list table \<Rightarrow> json \<Rightarrow> real \<Rightarrow> exn + real list table" where
  "append_score d k s =
     (case defaultdict_getitem [] d k of
        Inl e \<Rightarrow> Inl e
      | Inr (v, d') \<Rightarrow> Inr (store d' k (v @ [s])))"

text \<open>\<^verbatim>\<open>author_counts[author] += 1\<close>\<close>

definition increment :: "int table \<Rightarrow> json \<Rightarrow> exn + int table" where
  "increment d k =
     (case defaultdict_getitem 0 d k of
        Inl e \<Rightarrow> Inl e
      | Inr (v, d') \<Rightarrow> Inr (store d' k (v + 1)))"

section \<open>Logging, charts and the state of the module\<close>

datatype level = DEBUG | INFO | WARNING | ERROR

datatype log_msg =
    KafkaTopic string
  | KafkaGroup string
  | RawMessage string
  | ProcessedJSON json
  | SentimentScore real
  | UpdatedCounts "int table"
  | ChartsUpdated string
  | ExpectedDict json
  | InvalidJSON string
  | ErrorProcessing exn
  | StartConsumer
  | ConsumerTopicGroup string string
  | Polling string
  | Received int string
  | Interrupted
  | ErrorConsuming exn
  | ConsumerClosed string
  | EndConsumer string string

text \<open>One \<^verbatim>\<open>bar(labels, heights)\<close> call on one of the two axes.\<close>

datatype chart = CountChart "json list" "int list" | SentimentChart "json list" "real list"

record state =
  author_counts :: "int table"
  author_sentiments :: "real list table"
  logs :: "(level \<times> log_msg) list"
  charts :: "chart list"
  consumer_closed :: bool

text \<open>
  The collaborators the module imports: \<^verbatim>\<open>os.getenv\<close>, \<^verbatim>\<open>json.loads\<close>,
  \<^verbatim>\<open>TextBlob(message).sentiment.polarity\<close> and the Matplotlib calls that draw one
  chart. Each of the last three either returns or raises.
\<close>

record env =
  environ :: "string \<rightharpoonup> string"
  loads :: "string \<Rightarrow> exn + json"
  polarity :: "json \<Rightarrow> exn + real"
  plot :: "chart \<Rightarrow> exn option"

definition logger :: "level \<Rightarrow> log_msg \<Rightarrow> state \<Rightarrow> state" where
  "logger lvl msg st = st\<lparr>logs := logs st @ [(lvl, msg)]\<rparr>"

definition init_state :: state where
  "init_state =
     \<lparr>author_counts = [], author_sentiments = [], logs = [], charts = [],
      consumer_closed = False\<rparr>"

section \<open>Getters for the environment variables\<close>

definition getenv :: "env \<Rightarrow> string \<Rightarrow> string \<Rightarrow> string" where
  "getenv e name dflt = (case environ e name of Some v \<Rightarrow> v | None \<Rightarrow> dflt)"

definition get_kafka_topic :: "env \<Rightarrow> state \<Rightarrow> string \<times> state" where
  "get_kafka_topic e st =
     (let topic = getenv e ''BUZZ_TOPIC'' ''unknown_topic''
      in (topic, logger INFO (KafkaTopic topic) st))"

definition get_kafka_consumer_group_id :: "env \<Rightarrow> state \<Rightarrow> string \<times> state" where
  "get_kafka_consumer_group_id e st =
     (let group_id = getenv e ''BUZZ_CONSUMER_GROUP_ID'' ''default_group''
      in (group_id, logger INFO (KafkaGroup group_id) st))"

section \<open>The two chart updates\<close>

definition update_chart :: "env \<Rightarrow> state \<Rightarrow> exn option \<times> state" where
  "update_chart e st =
     (let authors_list = map fst (author_counts st);
          counts_list = map snd (author_counts st);
          c = CountChart authors_list counts_list
      in (plot e c, st\<lparr>charts := charts st @ [c]\<rparr>))"

text \<open>\<^verbatim>\<open>sum(scores) / len(scores)\<close>: division by zero raises.\<close>

definition average :: "real list \<Rightarrow> exn + real" where
  "average scores =
     (if length scores = 0 then Inl ZeroDivisionError
      else Inr (sum_list scores / real (length scores)))"

text \<open>The list comprehension over \<^verbatim>\<open>author_sentiments.values()\<close>: the first raise ends it.\<close>

fun averages :: "real list list \<Rightarrow> exn + real list" where
  "averages [] = Inr []"
| "averages (scores # rest) =
     (case average scores of
        Inl e \<Rightarrow> Inl e
      | Inr a \<Rightarrow> (case averages rest of Inl e \<Rightarrow> Inl e | Inr as \<Rightarrow> Inr (a # as)))"

definition update_sentiment_chart :: "env \<Rightarrow> state \<Rightarrow> exn option \<times> state" where
  "update_sentiment_chart e st =
     (let authors = map fst (author_sentiments st)
      in case averages (map snd (author_sentiments st)) of
           Inl ex \<Rightarrow> (Some ex, st)
         | Inr avg_sentiments \<Rightarrow>
             (let c = SentimentChart authors avg_sentiments
              in (plot e c, st\<lparr>charts := charts st @ [c]\<rparr>)))"

section \<open>Sentiment analysis\<close>

definition analyze_sentiment :: "env \<Rightarrow> json \<Rightarrow> exn + real" where
  "analyze_sentiment e message = polarity e message"

section \<open>Processing a single message\<close>

text \<open>
  The body of the \<^verbatim>\<open>try\<close> block: the state as the body left it, and the exception
  that ended it, if one did.
\<close>

definition record_event :: "env \<Rightarrow> string \<Rightarrow> json \<Rightarrow> real \<Rightarrow> state \<Rightarrow> exn option \<times> state" where
  "record_event e message author sentiment_score st =
     (case append_score (author_sentiments st) author sentiment_score of
        Inl ex \<Rightarrow> (Some ex, st)
      | Inr sents \<Rightarrow>
          (let st1 = st\<lparr>author_sentiments := sents\<rparr>
           in case increment (author_counts st1) author of
                Inl ex \<Rightarrow> (Some ex, st1)
              | Inr cnts \<Rightarrow>
                  (let st2 = st1\<lparr>author_counts := cnts\<rparr>;
                       st3 = logger INFO (UpdatedCounts (author_counts st2)) st2
                   in case update_chart e st3 of
                        (Some ex, st4) \<Rightarrow> (Some ex, st4)
                      | (None, st4) \<Rightarrow>
                          (case update_sentiment_chart e st4 of
                             (Some ex, st5) \<Rightarrow> (Some ex, st5)
                           | (None, st5) \<Rightarrow>
                               (None, logger INFO (ChartsUpdated message) st5)))))"

definition try_body :: "env \<Rightarrow> string \<Rightarrow> state \<Rightarrow> exn option \<times> state" where
  "try_body e message st =
     (let st1 = logger DEBUG (RawMessage message) st
      in case loads e message of
           Inl ex \<Rightarrow> (Some ex, st1)
         | Inr message_dict \<Rightarrow>
             (let st2 = logger INFO (ProcessedJSON message_dict) st1
              in case message_dict of
                   JObj kvs \<Rightarrow>
                     (let author = dict_get kvs ''author'' (JStr ''unknown'');
                          message_text = dict_get kvs ''message'' (JStr '''')
                      in case analyze_sentiment e message_text of
                           Inl ex \<Rightarrow> (Some ex, st2)
                         | Inr sentiment_score \<Rightarrow>
                             record_event e message author sentiment_score
                               (logger INFO (SentimentScore sentiment_score) st2))
                 | _ \<Rightarrow> (None, logger ERROR (ExpectedDict message_dict) st2)))"

text \<open>
  The two \<^verbatim>\<open>except\<close> clauses: \<^verbatim>\<open>json.JSONDecodeError\<close> first, then any other
  \<^verbatim>\<open>Exception\<close>. Both log and return.
\<close>

definition except_clauses :: "string \<Rightarrow> exn option \<times> state \<Rightarrow> state" where
  "except_clauses message r =
     (case r of
        (None, st') \<Rightarrow> st'
      | (Some JSONDecodeError, st') \<Rightarrow> logger ERROR (InvalidJSON message) st'
      | (Some ex, st') \<Rightarrow> logger ERROR (ErrorProcessing ex) st')"

definition process_message :: "env \<Rightarrow> string \<Rightarrow> state \<Rightarrow> state" where
  "process_message e message st = except_clauses message (try_body e message st)"

section \<open>The driver loop\<close>

text \<open>
  What one step of \<^verbatim>\<open>for message in consumer\<close> can give: a record with its offset and
  value, \<^verbatim>\<open>KeyboardInterrupt\<close>, or another exception of the consumer. The end of the
  list is the end of the stream.
\<close>

datatype consumer_item = Record int string | KeyboardInterrupt | ConsumerError exn

fun poll :: "env \<Rightarrow> consumer_item list \<Rightarrow> state \<Rightarrow> state" where
  "poll e [] st = st"
| "poll e (Record offset message_str # rest) st =
     poll e rest (process_message e message_str (logger DEBUG (Received offset message_str) st))"
| "poll e (KeyboardInterrupt # rest) st = logger WARNING Interrupted st"
| "poll e (ConsumerError ex # rest) st = logger ERROR (ErrorConsuming ex) st"

definition main :: "env \<Rightarrow> consumer_item list \<Rightarrow> state \<Rightarrow> state" where
  "main e consumer st =
     (let st1 = logger INFO StartConsumer st;
          (topic, st2) = get_kafka_topic e st1;
          (group_id, st3) = get_kafka_consumer_group_id e st2;
          st4 = logger INFO (ConsumerTopicGroup topic group_id) st3;
          st5 = logger INFO (Polling topic) st4;
          st6 = poll e consumer st5;
          st7 = st6\<lparr>consumer_closed := True\<rparr>;
          st8 = logger INFO (ConsumerClosed topic) st7
      in logger INFO (EndConsumer topic group_id) st8)"

section \<open>Notions used in the statements\<close>

text \<open>Processing a sequence of payloads, one call of \<^verbatim>\<open>process_message\<close> each.\<close>

definition run :: "env \<Rightarrow> string list \<Rightarrow> state \<Rightarrow> state" where
  "run e ms st = foldl (\<lambda>s m. process_message e m s) st ms"

text \<open>The error-level entries of the log.\<close>

definition errors_logged :: "state \<Rightarrow> (level \<times> log_msg) list" where
  "errors_logged st = filter (\<lambda>entry. fst entry = ERROR) (logs st)"

text \<open>The charts drawn since an earlier state.\<close>

definition charts_since :: "state \<Rightarrow> state \<Rightarrow> chart list" where
  "charts_since st st' = drop (length (charts st)) (charts st')"

text \<open>Reading a table with the default of its defaultdict, without inserting.\<close>

definition scores_of :: "real list table \<Rightarrow> json \<Rightarrow> real list" where
  "scores_of d k = (case lookup d k of Some v \<Rightarrow> v | None \<Rightarrow> [])"

definition count_of :: "int table \<Rightarrow> json \<Rightarrow> int" where
  "count_of d k = (case lookup d k of Some v \<Rightarrow> v | None \<Rightarrow> 0)"

text \<open>
  The author and score an event contributes: it decodes to an object, the scorer returns
  a score for its text, and its author value is hashable. Any other event contributes
  nothing.
\<close>

definition recorded :: "env \<Rightarrow> string \<Rightarrow> (json \<times> real) option" where
  "recorded e message =
     (case loads e message of
        Inr (JObj kvs) \<Rightarrow>
          (case analyze_sentiment e (dict_get kvs ''message'' (JStr '''')) of
             Inr s \<Rightarrow>
               (let author = dict_get kvs ''author'' (JStr ''unknown'')
                in if hash_key author = None then None else Some (author, s))
           | Inl ex \<Rightarrow> None)
      | _ \<Rightarrow> None)"

definition put_score :: "real list table \<Rightarrow> (json \<times> real) option \<Rightarrow> real list table" where
  "put_score d r = (case r of None \<Rightarrow> d | Some (k, s) \<Rightarrow> store d k (scores_of d k @ [s]))"

definition put_count :: "int table \<Rightarrow> (json \<times> real) option \<Rightarrow> int table" where
  "put_count d r = (case r of None \<Rightarrow> d | Some (k, s) \<Rightarrow> store d k (count_of d k + 1))"

text \<open>The count table that belongs to a sentiment table.\<close>

definition counted :: "real list table \<Rightarrow> int table" where
  "counted d = map (\<lambda>(k, ss). (k, int (length ss))) d"

text \<open>Keys in the order of their first appearance, compared as a dict compares them.\<close>

definition add_key :: "json list \<Rightarrow> json \<Rightarrow> json list" where
  "add_key ks k = (if hash_key k \<in> set (map hash_key ks) then ks else ks @ [k])"

definition first_appearance :: "json list \<Rightarrow> json list" where
  "first_appearance ks = foldl add_key [] ks"

definition mean :: "real list \<Rightarrow> real" where
  "mean scores = sum_list scores / real (length scores)"

text \<open>The authors of the recorded payloads, in the order of arrival.\<close>

definition authors_recorded :: "env \<Rightarrow> string list \<Rightarrow> json list" where
  "authors_recorded e ms = map fst (List.map_filter (recorded e) ms)"

text \<open>The labels of a chart, and the charts a chart update draws.\<close>

fun labels :: "chart \<Rightarrow> json list" where
  "labels (CountChart ks hs) = ks"
| "labels (SentimentChart ks hs) = ks"

text \<open>The records of a consumer, as items of its stream.\<close>

definition records :: "(int \<times> string) list \<Rightarrow> consumer_item list" where
  "records rs = map (\<lambda>(offset, message_str). Record offset message_str) rs"

text \<open>The body of the \<^verbatim>\<open>for\<close> loop, for one record of the consumer.\<close>

definition loop_body :: "env \<Rightarrow> state \<Rightarrow> int \<times> string \<Rightarrow> state" where
  "loop_body e st r =
     process_message e (snd r) (logger DEBUG (Received (fst r) (snd r)) st)"

text \<open>The records a stream gives before it ends, is interrupted or fails.\<close>

fun records_before :: "consumer_item list \<Rightarrow> (int \<times> string) list" where
  "records_before (Record offset message_str # rest) = (offset, message_str) # records_before rest"
| "records_before items = []"

text \<open>What the loop logs when it is left: nothing at the end of the stream.\<close>

fun loop_end :: "consumer_item list \<Rightarrow> (level \<times> log_msg) list" where
  "loop_end [] = []"
| "loop_end (Record offset message_str # rest) = loop_end rest"
| "loop_end (KeyboardInterrupt # rest) = [(WARNING, Interrupted)]"
| "loop_end (ConsumerError ex # rest) = [(ERROR, ErrorConsuming ex)]"

text \<open>
  The payloads \<^verbatim>\<open>process_message\<close> was called on, read off the log: each call logs its
  raw payload first.
\<close>

definition payloads_handled :: "state \<Rightarrow> string list" where
  "payloads_handled st =
     concat (map (\<lambda>entry. case snd entry of RawMessage m \<Rightarrow> [m] | _ \<Rightarrow> []) (logs st))"

subsection \<open>A small environment to evaluate the definitions on\<close>

definition demo_payloads :: "(string \<times> json) list" where
  \<open>demo_payloads =
     [(''{"author": "a", "message": "great"}'',
         JObj [(''author'', JStr ''a''), (''message'', JStr ''great'')]),
      (''{"author": "b", "message": "bad"}'',
         JObj [(''author'', JStr ''b''), (''message'', JStr ''bad'')]),
      (''{"author": "a", "message": "ok"}'',
         JObj [(''author'', JStr ''a''), (''message'', JStr ''ok'')]),
      (''{"author": null, "message": "hi"}'',
         JObj [(''author'', JNull), (''message'', JStr ''hi'')]),
      (''{"author": ["a"], "message": "hi"}'',
         JObj [(''author'', JArr [JStr ''a'']), (''message'', JStr ''hi'')]),
      (''{"message": 5}'', JObj [(''message'', JInt 5)]),
      (''{}'', JObj []),
      (''[1, 2]'', JArr [JInt 1, JInt 2])]\<close>

definition demo_loads :: "string \<Rightarrow> exn + json" where
  "demo_loads s = (case map_of demo_payloads s of Some j \<Rightarrow> Inr j | None \<Rightarrow> Inl JSONDecodeError)"

text \<open>A scorer that knows three words, is neutral on other text and rejects what is not text.\<close>

definition demo_polarity :: "json \<Rightarrow> exn + real" where
  "demo_polarity j =
     (case j of
        JStr s \<Rightarrow>
          Inr (if s = ''great'' then 0.8 else if s = ''bad'' then - 0.6 else 0)
      | _ \<Rightarrow> Inl TypeError)"

definition demo_env :: env where
  "demo_env =
     \<lparr>environ = Map.empty, loads = demo_loads, polarity = demo_polarity,
      plot = (\<lambda>c. None)\<rparr>"

text \<open>The same environment with a backend that fails on every chart.\<close>

definition broken_plot_env :: env where
  "broken_plot_env = demo_env\<lparr>plot := (\<lambda>c. Some (OtherError ''backend''))\<rparr>"

section \<open>Facts about the tables\<close>

lemma store_store: "store (store d k v) k w = store d k w"
  by (induction d) auto

lemma lookup_store_same: "lookup (store d k v) k = Some v"
  by (induction d) auto

lemma lookup_store_other:
  "hash_key k' \<noteq> hash_key k \<Longrightarrow> lookup (store d k v) k' = lookup d k'"
  by (induction d) auto

lemma lookup_None_iff: "lookup d k = None \<longleftrightarrow> hash_key k \<notin> set (map hash_key (map fst d))"
  by (induction d) force+

lemma keys_store: "map fst (store d k v) = add_key (map fst d) k"
proof (induction d)
  case Nil
  then show ?case by (simp add: add_key_def)
next
  case (Cons p d)
  obtain k' v' where p: "p = (k', v')" by (cases p)
  show ?case
  proof (cases "hash_key k' = hash_key k")
    case True
    then show ?thesis by (simp add: p add_key_def)
  next
    case False
    then have "add_key (map fst (p # d)) k = k' # add_key (map fst d) k"
      by (auto simp: p add_key_def)
    with False Cons show ?thesis by (simp add: p)
  qed
qed

lemma append_score_unhashable: "hash_key k = None \<Longrightarrow> append_score d k s = Inl TypeError"
  by (simp add: append_score_def defaultdict_getitem_def)

lemma append_score_hashable:
  "hash_key k \<noteq> None \<Longrightarrow> append_score d k s = Inr (store d k (scores_of d k @ [s]))"
  by (simp add: append_score_def defaultdict_getitem_def scores_of_def store_store
      split: option.splits)

lemma increment_hashable:
  "hash_key k \<noteq> None \<Longrightarrow> increment d k = Inr (store d k (count_of d k + 1))"
  by (simp add: increment_def defaultdict_getitem_def count_of_def store_store
      split: option.splits)

lemma lookup_counted: "lookup (counted d) k = map_option (\<lambda>ss. int (length ss)) (lookup d k)"
  by (induction d) (auto simp: counted_def)

lemma store_counted: "store (counted d) k (int (length v)) = counted (store d k v)"
  by (induction d) (auto simp: counted_def)

lemma count_of_counted: "count_of (counted d) k = int (length (scores_of d k))"
  by (simp add: count_of_def scores_of_def lookup_counted split: option.splits)

lemma keys_counted: "map fst (counted d) = map fst d"
  by (induction d) (auto simp: counted_def)

lemma put_count_counted: "put_count (counted d) r = counted (put_score d r)"
proof (cases r)
  case None
  then show ?thesis by (simp add: put_count_def put_score_def)
next
  case (Some p)
  obtain k s where p: "p = (k, s)" by (cases p)
  have "store (counted d) k (int (length (scores_of d k @ [s]))) =
          counted (store d k (scores_of d k @ [s]))"
    by (rule store_counted)
  then show ?thesis
    by (simp add: Some p put_count_def put_score_def count_of_counted add.commute)
qed

lemma sum_store:
  "sum_list (map snd (store d k (count_of d k + 1))) = sum_list (map snd d) + 1"
proof (induction d)
  case Nil
  then show ?case by (simp add: count_of_def)
next
  case (Cons p d)
  obtain k' v where p: "p = (k', v)" by (cases p)
  show ?case
  proof (cases "hash_key k' = hash_key k")
    case True
    then show ?thesis by (simp add: p count_of_def)
  next
    case False
    then have "count_of (p # d) k = count_of d k" by (simp add: p count_of_def)
    with False Cons show ?thesis by (simp add: p)
  qed
qed

lemma sum_put_count:
  "sum_list (map snd (put_count d r)) = sum_list (map snd d) + (if r = None then 0 else 1)"
  by (cases r) (auto simp: put_count_def sum_store)

lemma nonempty_store:
  "list_all (\<lambda>p. snd p \<noteq> []) d \<Longrightarrow> v \<noteq> [] \<Longrightarrow> list_all (\<lambda>p. snd p \<noteq> []) (store d k v)"
  by (induction d) auto

lemma nonempty_put_score:
  "list_all (\<lambda>p. snd p \<noteq> []) d \<Longrightarrow> list_all (\<lambda>p. snd p \<noteq> []) (put_score d r)"
  by (cases r) (auto simp: put_score_def nonempty_store)

lemma averages_nonempty:
  "list_all (\<lambda>p. snd p \<noteq> []) d \<Longrightarrow> averages (map snd d) = Inr (map (\<lambda>p. mean (snd p)) d)"
  by (induction d) (auto simp: average_def mean_def)

section \<open>Facts about processing one message\<close>

lemma logger_fields [simp]:
  "author_counts (logger l m st) = author_counts st"
  "author_sentiments (logger l m st) = author_sentiments st"
  "charts (logger l m st) = charts st"
  "consumer_closed (logger l m st) = consumer_closed st"
  "logs (logger l m st) = logs st @ [(l, m)]"
  by (simp_all add: logger_def)

lemma update_chart_result:
  "update_chart e st = (x, st') \<Longrightarrow>
     author_counts st' = author_counts st \<and> author_sentiments st' = author_sentiments st"
  by (auto simp: update_chart_def Let_def)

lemma update_sentiment_chart_result:
  "update_sentiment_chart e st = (x, st') \<Longrightarrow>
     author_counts st' = author_counts st \<and> author_sentiments st' = author_sentiments st"
  by (auto simp: update_sentiment_chart_def Let_def split: sum.splits)

lemma record_event_unhashable:
  "hash_key a = None \<Longrightarrow> record_event e m a s st = (Some TypeError, st)"
  by (simp add: record_event_def append_score_unhashable)

lemma record_event_tables:
  assumes "hash_key a \<noteq> None"
  shows "author_sentiments (snd (record_event e m a s st)) =
           store (author_sentiments st) a (scores_of (author_sentiments st) a @ [s])"
    and "author_counts (snd (record_event e m a s st)) =
           store (author_counts st) a (count_of (author_counts st) a + 1)"
  using assms
  by (auto simp: record_event_def append_score_hashable increment_hashable Let_def
      split: prod.splits option.splits
      dest!: update_chart_result update_sentiment_chart_result)

lemma try_body_tables:
  "author_sentiments (snd (try_body e m st)) = put_score (author_sentiments st) (recorded e m)"
  "author_counts (snd (try_body e m st)) = put_count (author_counts st) (recorded e m)"
  by (auto simp: try_body_def recorded_def put_score_def put_count_def Let_def
      record_event_tables record_event_unhashable split: sum.splits json.splits)

lemma process_message_tables:
  "author_sentiments (process_message e m st) = put_score (author_sentiments st) (recorded e m)"
  "author_counts (process_message e m st) = put_count (author_counts st) (recorded e m)"
  using try_body_tables [of e m st]
  by (auto simp: process_message_def except_clauses_def
      split: prod.splits option.splits exn.splits)

lemma run_Nil [simp]: "run e [] st = st"
  by (simp add: run_def)

lemma run_Cons [simp]: "run e (m # ms) st = run e ms (process_message e m st)"
  by (simp add: run_def)

lemma run_snoc: "run e (ms @ [m]) st = process_message e m (run e ms st)"
  by (simp add: run_def)

lemma run_sentiments:
  "author_sentiments (run e ms st) = foldl put_score (author_sentiments st) (map (recorded e) ms)"
  by (induction ms arbitrary: st) (simp_all add: process_message_tables)

lemma run_counts:
  "author_counts (run e ms st) = foldl put_count (author_counts st) (map (recorded e) ms)"
  by (induction ms arbitrary: st) (simp_all add: process_message_tables)

lemma run_counted:
  "author_counts st = counted (author_sentiments st) \<Longrightarrow>
     author_counts (run e ms st) = counted (author_sentiments (run e ms st))"
  by (induction ms arbitrary: st) (simp_all add: process_message_tables put_count_counted)

lemma run_nonempty:
  "list_all (\<lambda>p. snd p \<noteq> []) (author_sentiments st) \<Longrightarrow>
     list_all (\<lambda>p. snd p \<noteq> []) (author_sentiments (run e ms st))"
  by (induction ms arbitrary: st) (simp_all add: process_message_tables nonempty_put_score)

lemma reachable_counted:
  "author_counts (run e ms init_state) = counted (author_sentiments (run e ms init_state))"
  by (rule run_counted) (simp add: init_state_def counted_def)

lemma reachable_nonempty:
  "list_all (\<lambda>p. snd p \<noteq> []) (author_sentiments (run e ms init_state))"
  by (rule run_nonempty) (simp add: init_state_def)


section \<open>Facts about the log and the charts\<close>

lemma errors_logger:
  "errors_logged (logger l m st) = errors_logged st @ (if l = ERROR then [(l, m)] else [])"
  by (simp add: errors_logged_def)

lemma errors_except_clauses:
  "errors_logged (except_clauses m (x, st)) =
     errors_logged st @
       (case x of None \<Rightarrow> [] | Some JSONDecodeError \<Rightarrow> [(ERROR, InvalidJSON m)]
        | Some ex \<Rightarrow> [(ERROR, ErrorProcessing ex)])"
  by (simp add: except_clauses_def errors_logger split: option.splits exn.splits)

lemma length_errors_except_clauses:
  "length (errors_logged (except_clauses m (x, st))) =
     length (errors_logged st) + (if x = None then 0 else 1)"
  by (simp add: errors_except_clauses split: option.splits exn.splits)

lemma except_clauses_fields [simp]:
  "author_counts (except_clauses m (x, st)) = author_counts st"
  "author_sentiments (except_clauses m (x, st)) = author_sentiments st"
  "charts (except_clauses m (x, st)) = charts st"
  by (simp_all add: except_clauses_def split: option.splits exn.splits)

lemma errors_updated [simp]:
  "errors_logged (st\<lparr>author_counts := c\<rparr>) = errors_logged st"
  "errors_logged (st\<lparr>author_sentiments := d\<rparr>) = errors_logged st"
  "errors_logged (st\<lparr>charts := cs\<rparr>) = errors_logged st"
  by (simp_all add: errors_logged_def)

lemma record_event_errors:
  "errors_logged (snd (record_event e m a s st)) = errors_logged st"
  by (auto simp: record_event_def update_chart_def update_sentiment_chart_def Let_def
      errors_logger split: sum.splits option.splits)

lemma charts_since_append [simp]:
  "charts_since st (st'\<lparr>charts := charts st @ cs\<rparr>) = cs"
  by (simp add: charts_since_def)

lemma charts_since_logger [simp]:
  "charts_since (logger l m st) st' = charts_since st st'"
  "charts_since st (logger l m st') = charts_since st st'"
  by (simp_all add: charts_since_def)

lemma record_event_raises:
  assumes "\<exists>c \<in> set (charts_since st (snd (record_event e m a s st))). plot e c \<noteq> None"
  shows "fst (record_event e m a s st) \<noteq> None"
  using assms
  by (auto simp: record_event_def update_chart_def update_sentiment_chart_def Let_def
      charts_since_def logger_def split: sum.splits option.splits)

lemma record_event_ok:
  assumes "hash_key a \<noteq> None" and "list_all (\<lambda>p. snd p \<noteq> []) (author_sentiments st)"
    and "\<And>c. plot e c = None"
  shows "fst (record_event e m a s st) = None"
proof -
  have "list_all (\<lambda>p. snd p \<noteq> [])
          (store (author_sentiments st) a (scores_of (author_sentiments st) a @ [s]))"
    using assms(2) by (simp add: nonempty_store)
  then have "averages (map snd
          (store (author_sentiments st) a (scores_of (author_sentiments st) a @ [s]))) =
        Inr (map (\<lambda>p. mean (snd p))
          (store (author_sentiments st) a (scores_of (author_sentiments st) a @ [s])))"
    by (rule averages_nonempty)
  then show ?thesis
    using assms(1,3)
    by (simp add: record_event_def append_score_hashable increment_hashable
        update_chart_def update_sentiment_chart_def Let_def)
qed

lemma process_message_object:
  assumes "loads e m = Inr (JObj kvs)"
    and "analyze_sentiment e (dict_get kvs ''message'' (JStr '''')) = Inr s"
  shows "process_message e m st =
           except_clauses m
             (record_event e m (dict_get kvs ''author'' (JStr ''unknown'')) s
               (logger INFO (SentimentScore s)
                 (logger INFO (ProcessedJSON (JObj kvs))
                   (logger DEBUG (RawMessage m) st))))"
  using assms by (simp add: process_message_def try_body_def Let_def)

lemma process_message_scorer_raises:
  assumes "loads e m = Inr (JObj kvs)"
    and "analyze_sentiment e (dict_get kvs ''message'' (JStr '''')) = Inl ex"
  shows "process_message e m st =
           except_clauses m
             (Some ex, logger INFO (ProcessedJSON (JObj kvs)) (logger DEBUG (RawMessage m) st))"
  using assms by (simp add: process_message_def try_body_def Let_def)

lemma keys_put_score:
  "map fst (put_score d r) = (case r of None \<Rightarrow> map fst d | Some p \<Rightarrow> add_key (map fst d) (fst p))"
  by (cases r) (auto simp: put_score_def keys_store)

lemma keys_foldl_put_score:
  "map fst (foldl put_score d (map (recorded e) ms)) =
     foldl add_key (map fst d) (authors_recorded e ms)"
  by (induction ms arbitrary: d)
    (auto simp: authors_recorded_def keys_put_score List.map_filter_simps split: option.splits)

section \<open>Facts about the driver loop\<close>

lemma payloads_logger:
  "payloads_handled (logger l msg st) =
     payloads_handled st @ (case msg of RawMessage m \<Rightarrow> [m] | _ \<Rightarrow> [])"
  by (simp add: payloads_handled_def)

lemma payloads_updated [simp]:
  "payloads_handled (st\<lparr>author_counts := c\<rparr>) = payloads_handled st"
  "payloads_handled (st\<lparr>author_sentiments := d\<rparr>) = payloads_handled st"
  "payloads_handled (st\<lparr>charts := cs\<rparr>) = payloads_handled st"
  "payloads_handled (st\<lparr>consumer_closed := b\<rparr>) = payloads_handled st"
  by (simp_all add: payloads_handled_def)

lemma payloads_record_event:
  "payloads_handled (snd (record_event e m a s st)) = payloads_handled st"
  by (auto simp: record_event_def update_chart_def update_sentiment_chart_def Let_def
      payloads_logger split: sum.splits option.splits)

lemma payloads_except_clauses:
  "payloads_handled (except_clauses m r) = payloads_handled (snd r)"
  by (cases r) (simp add: except_clauses_def payloads_logger split: option.splits exn.splits)

lemma payloads_try_body:
  "payloads_handled (snd (try_body e m st)) = payloads_handled st @ [m]"
  by (auto simp: try_body_def Let_def payloads_logger payloads_record_event
      split: sum.splits json.splits)

lemma payloads_process_message:
  "payloads_handled (process_message e m st) = payloads_handled st @ [m]"
  by (simp add: process_message_def payloads_except_clauses payloads_try_body)

lemma payloads_loop_body:
  "payloads_handled (loop_body e st r) = payloads_handled st @ [snd r]"
  by (simp add: loop_body_def payloads_process_message payloads_logger)

lemma payloads_foldl_loop_body:
  "payloads_handled (foldl (loop_body e) st rs) = payloads_handled st @ map snd rs"
  by (induction rs arbitrary: st) (simp_all add: payloads_loop_body)

lemma tables_loop_body:
  "author_sentiments (loop_body e st r) = put_score (author_sentiments st) (recorded e (snd r))"
  "author_counts (loop_body e st r) = put_count (author_counts st) (recorded e (snd r))"
  by (simp_all add: loop_body_def process_message_tables)

lemma tables_foldl_loop_body:
  "author_sentiments (foldl (loop_body e) st rs) =
     foldl put_score (author_sentiments st) (map (recorded e) (map snd rs))"
  "author_counts (foldl (loop_body e) st rs) =
     foldl put_count (author_counts st) (map (recorded e) (map snd rs))"
  by (induction rs arbitrary: st) (simp_all add: tables_loop_body)

lemma poll_loop:
  "poll e items st =
     (foldl (loop_body e) st (records_before items))
       \<lparr>logs := logs (foldl (loop_body e) st (records_before items)) @ loop_end items\<rparr>"
  by (induction e items st rule: poll.induct) (simp_all add: loop_body_def logger_def)

lemma records_before_records:
  "records_before (records rs @ items) = rs @ records_before items"
  by (induction rs) (auto simp: records_def)

lemma payloads_logs_appended:
  "payloads_handled (st\<lparr>logs := logs st @ loop_end items\<rparr>) = payloads_handled st"
  by (induction items rule: loop_end.induct) (simp_all add: payloads_handled_def)

section \<open>The claims\<close>

text \<open>
  C1. After processing any sequence of payloads, valid or not, the two tables are
  key-synchronised: they hold the same keys in the same order, a key is in the count
  table if and only if it is in the sentiment table, and the count of a key is the length
  of its sentiment list.
\<close>

theorem tables_key_synchronised:
  "map fst (author_counts (run e ms init_state)) =
     map fst (author_sentiments (run e ms init_state)) \<and>
   lookup (author_counts (run e ms init_state)) k =
     map_option (\<lambda>scores. int (length scores))
       (lookup (author_sentiments (run e ms init_state)) k)"
proof -
  have c: "author_counts (run e ms init_state) =
             counted (author_sentiments (run e ms init_state))"
    by (rule reachable_counted)
  show ?thesis
    by (simp only: c keys_counted lookup_counted)
qed

text \<open>
  C2, as amended. From the empty initial state, the sum of the counts is the number of
  payloads that were recorded: those that decode to an object whose text the scorer
  scores and whose author value is hashable. Each of them adds exactly 1.
\<close>

theorem count_sum_is_number_recorded:
  "sum_list (map snd (author_counts (run e ms init_state))) =
     int (length (filter (\<lambda>m. recorded e m \<noteq> None) ms))"
proof -
  have "sum_list (map snd (foldl put_count d (map (recorded e) ms))) =
          sum_list (map snd d) + int (length (filter (\<lambda>m. recorded e m \<noteq> None) ms))" for d
    by (induction ms arbitrary: d) (simp_all add: sum_put_count)
  then show ?thesis
    by (simp add: run_counts init_state_def)
qed

text \<open>
  The claim as stated fails: a payload that decodes to an object whose author is a list
  is not counted, since a list cannot be a dict key.
\<close>

theorem count_sum_counterexample:
  \<open>loads demo_env ''{"author": ["a"], "message": "hi"}'' =
     Inr (JObj [(''author'', JArr [JStr ''a'']), (''message'', JStr ''hi'')]) \<and>
   sum_list (map snd (author_counts
     (run demo_env [''{"author": ["a"], "message": "hi"}''] init_state))) = 0 \<and>
   int (length [''{"author": ["a"], "message": "hi"}'']) = 1\<close>
  by (simp add: demo_env_def demo_loads_def demo_payloads_def demo_polarity_def
      process_message_tables recorded_def analyze_sentiment_def dict_get_def
      put_count_def init_state_def)

theorem count_sum_witness:
  \<open>sum_list (map snd (author_counts
     (run demo_env [''{"author": ["a"], "message": "hi"}'', ''{}'', ''[1, 2]''] init_state))) = 1\<close>
  using count_sum_is_number_recorded
    [of demo_env \<open>[''{"author": ["a"], "message": "hi"}'', ''{}'', ''[1, 2]'']\<close>]
  by (simp add: demo_env_def demo_loads_def demo_payloads_def demo_polarity_def
      recorded_def analyze_sentiment_def dict_get_def)

text \<open>
  C9. In every state reached from the empty initial state, every sentiment list is
  non-empty, so the averages of the sentiment chart are computed without a division by
  zero: no \<^verbatim>\<open>ZeroDivisionError\<close> is raised.
\<close>

theorem reachable_averages_defined:
  "list_all (\<lambda>p. snd p \<noteq> []) (author_sentiments (run e ms init_state)) \<and>
   averages (map snd (author_sentiments (run e ms init_state))) =
     Inr (map (\<lambda>p. mean (snd p)) (author_sentiments (run e ms init_state)))"
  using reachable_nonempty [of e ms] by (simp add: averages_nonempty)

text \<open>
  C3. A payload that does not decode to an object (the decoder raises, or the decoded
  value is not a dict) leaves both tables as they were, draws no chart and adds exactly
  one error-level entry to the log.
\<close>

theorem undecodable_payload_skipped:
  assumes "\<forall>kvs. loads e m \<noteq> Inr (JObj kvs)"
  shows "author_counts (process_message e m st) = author_counts st \<and>
         author_sentiments (process_message e m st) = author_sentiments st \<and>
         charts (process_message e m st) = charts st \<and>
         errors_logged (process_message e m st) =
           errors_logged st @
             [(ERROR, case loads e m of
                        Inl JSONDecodeError \<Rightarrow> InvalidJSON m
                      | Inl ex \<Rightarrow> ErrorProcessing ex
                      | Inr j \<Rightarrow> ExpectedDict j)]"
proof (cases "loads e m")
  case (Inl ex)
  then have "process_message e m st = except_clauses m (Some ex, logger DEBUG (RawMessage m) st)"
    by (simp add: process_message_def try_body_def Let_def)
  then show ?thesis
    by (simp add: Inl errors_except_clauses errors_logger split: exn.splits)
next
  case (Inr j)
  with assms have "\<forall>kvs. j \<noteq> JObj kvs" by simp
  then have "process_message e m st =
      logger ERROR (ExpectedDict j)
        (logger INFO (ProcessedJSON j) (logger DEBUG (RawMessage m) st))"
    by (cases j) (simp_all add: process_message_def try_body_def Let_def Inr except_clauses_def)
  then show ?thesis
    by (simp add: Inr errors_logger)
qed

theorem undecodable_payload_witness:
  "(\<forall>kvs. loads demo_env ''[1, 2]'' \<noteq> Inr (JObj kvs)) \<and>
   author_counts (process_message demo_env ''[1, 2]'' init_state) = [] \<and>
   author_sentiments (process_message demo_env ''[1, 2]'' init_state) = [] \<and>
   charts (process_message demo_env ''[1, 2]'' init_state) = [] \<and>
   errors_logged (process_message demo_env ''[1, 2]'' init_state) =
     [(ERROR, ExpectedDict (JArr [JInt 1, JInt 2]))]"
proof -
  have h: "\<forall>kvs. loads demo_env ''[1, 2]'' \<noteq> Inr (JObj kvs)"
    by (simp add: demo_env_def demo_loads_def demo_payloads_def)
  have l: "loads demo_env ''[1, 2]'' = Inr (JArr [JInt 1, JInt 2])"
    by (simp add: demo_env_def demo_loads_def demo_payloads_def)
  show ?thesis
    using h undecodable_payload_skipped [OF h, of init_state]
    by (simp add: l init_state_def errors_logged_def)
qed




text \<open>
  C5. In every reachable state the sentiment chart draws, for each author, the arithmetic
  mean of that author's recorded scores (the sum of the list divided by its length). For
  the events a/great, b/bad, a/ok and a scorer giving 0.8, -0.6 and 0.0, the counts are
  a: 2, b: 1 and the averages drawn are 0.4 for a and -0.6 for b.
\<close>

theorem rendered_average_is_mean:
  "update_sentiment_chart e (run e ms init_state) =
     (plot e (SentimentChart (map fst (author_sentiments (run e ms init_state)))
               (map (\<lambda>p. sum_list (snd p) / real (length (snd p)))
                 (author_sentiments (run e ms init_state)))),
      (run e ms init_state)
        \<lparr>charts := charts (run e ms init_state) @
           [SentimentChart (map fst (author_sentiments (run e ms init_state)))
              (map (\<lambda>p. sum_list (snd p) / real (length (snd p)))
                (author_sentiments (run e ms init_state)))]\<rparr>) \<and>
   (loads e m1 = Inr (JObj [(''author'', JStr ''a''), (''message'', JStr ''great'')]) \<and>
    loads e m2 = Inr (JObj [(''author'', JStr ''b''), (''message'', JStr ''bad'')]) \<and>
    loads e m3 = Inr (JObj [(''author'', JStr ''a''), (''message'', JStr ''ok'')]) \<and>
    polarity e (JStr ''great'') = Inr 0.8 \<and>
    polarity e (JStr ''bad'') = Inr (- 0.6) \<and>
    polarity e (JStr ''ok'') = Inr 0.0 \<longrightarrow>
      author_counts (run e [m1, m2, m3] init_state) = [(JStr ''a'', 2), (JStr ''b'', 1)] \<and>
      author_sentiments (run e [m1, m2, m3] init_state) =
        [(JStr ''a'', [0.8, 0.0]), (JStr ''b'', [- 0.6])] \<and>
      averages (map snd (author_sentiments (run e [m1, m2, m3] init_state))) =
        Inr [0.4, - 0.6])"
proof -
  have av: "averages (map snd (author_sentiments (run e ms init_state))) =
      Inr (map (\<lambda>p. mean (snd p)) (author_sentiments (run e ms init_state)))"
    using reachable_nonempty [of e ms] by (rule averages_nonempty)
  have general: "update_sentiment_chart e (run e ms init_state) =
           (plot e (SentimentChart (map fst (author_sentiments (run e ms init_state)))
                     (map (\<lambda>p. sum_list (snd p) / real (length (snd p)))
                       (author_sentiments (run e ms init_state)))),
            (run e ms init_state)
              \<lparr>charts := charts (run e ms init_state) @
                 [SentimentChart (map fst (author_sentiments (run e ms init_state)))
                    (map (\<lambda>p. sum_list (snd p) / real (length (snd p)))
                      (author_sentiments (run e ms init_state)))]\<rparr>)"
    by (simp add: update_sentiment_chart_def av Let_def mean_def)
  have scenario:
    "author_counts (run e [m1, m2, m3] init_state) = [(JStr ''a'', 2), (JStr ''b'', 1)] \<and>
     author_sentiments (run e [m1, m2, m3] init_state) =
       [(JStr ''a'', [0.8, 0.0]), (JStr ''b'', [- 0.6])] \<and>
     averages (map snd (author_sentiments (run e [m1, m2, m3] init_state))) =
       Inr [0.4, - 0.6]"
    if h: "loads e m1 = Inr (JObj [(''author'', JStr ''a''), (''message'', JStr ''great'')])"
      "loads e m2 = Inr (JObj [(''author'', JStr ''b''), (''message'', JStr ''bad'')])"
      "loads e m3 = Inr (JObj [(''author'', JStr ''a''), (''message'', JStr ''ok'')])"
      "polarity e (JStr ''great'') = Inr 0.8"
      "polarity e (JStr ''bad'') = Inr (- 0.6)"
      "polarity e (JStr ''ok'') = Inr 0.0"
  proof -
    have r1: "recorded e m1 = Some (JStr ''a'', 0.8)"
      by (simp add: recorded_def h(1,4) analyze_sentiment_def dict_get_def)
    have r2: "recorded e m2 = Some (JStr ''b'', - 0.6)"
      by (simp add: recorded_def h(2,5) analyze_sentiment_def dict_get_def)
    have r3: "recorded e m3 = Some (JStr ''a'', 0.0)"
      by (simp add: recorded_def h(3,6) analyze_sentiment_def dict_get_def)
    have cnt: "author_counts (run e [m1, m2, m3] init_state) =
        [(JStr ''a'', 2), (JStr ''b'', 1)]"
      by (simp add: process_message_tables r1 r2 r3 put_count_def count_of_def init_state_def)
    have sen: "author_sentiments (run e [m1, m2, m3] init_state) =
        [(JStr ''a'', [0.8, 0.0]), (JStr ''b'', [- 0.6])]"
      by (simp add: process_message_tables r1 r2 r3 put_score_def scores_of_def init_state_def)
    have avg: "averages (map snd (author_sentiments (run e [m1, m2, m3] init_state))) =
        Inr [0.4, - 0.6]"
      unfolding sen by (simp add: average_def)
    show ?thesis
      using cnt sen avg by (intro conjI)
  qed
  show ?thesis
    using general scenario by blast
qed

theorem rendered_average_witness:
  \<open>loads demo_env ''{"author": "a", "message": "great"}'' =
     Inr (JObj [(''author'', JStr ''a''), (''message'', JStr ''great'')]) \<and>
   loads demo_env ''{"author": "b", "message": "bad"}'' =
     Inr (JObj [(''author'', JStr ''b''), (''message'', JStr ''bad'')]) \<and>
   loads demo_env ''{"author": "a", "message": "ok"}'' =
     Inr (JObj [(''author'', JStr ''a''), (''message'', JStr ''ok'')]) \<and>
   polarity demo_env (JStr ''great'') = Inr 0.8 \<and>
   polarity demo_env (JStr ''bad'') = Inr (- 0.6) \<and>
   polarity demo_env (JStr ''ok'') = Inr 0.0 \<and>
   author_counts (run demo_env
      [''{"author": "a", "message": "great"}'', ''{"author": "b", "message": "bad"}'',
       ''{"author": "a", "message": "ok"}''] init_state) =
     [(JStr ''a'', 2), (JStr ''b'', 1)] \<and>
   averages (map snd (author_sentiments (run demo_env
      [''{"author": "a", "message": "great"}'', ''{"author": "b", "message": "bad"}'',
       ''{"author": "a", "message": "ok"}''] init_state))) = Inr [0.4, - 0.6]\<close>
proof -
  have l1: \<open>loads demo_env ''{"author": "a", "message": "great"}'' =
     Inr (JObj [(''author'', JStr ''a''), (''message'', JStr ''great'')])\<close>
    by (simp add: demo_env_def demo_loads_def demo_payloads_def)
  have l2: \<open>loads demo_env ''{"author": "b", "message": "bad"}'' =
     Inr (JObj [(''author'', JStr ''b''), (''message'', JStr ''bad'')])\<close>
    by (simp add: demo_env_def demo_loads_def demo_payloads_def)
  have l3: \<open>loads demo_env ''{"author": "a", "message": "ok"}'' =
     Inr (JObj [(''author'', JStr ''a''), (''message'', JStr ''ok'')])\<close>
    by (simp add: demo_env_def demo_loads_def demo_payloads_def)
  have p1: "polarity demo_env (JStr ''great'') = Inr 0.8"
    by (simp add: demo_env_def demo_polarity_def)
  have p2: "polarity demo_env (JStr ''bad'') = Inr (- 0.6)"
    by (simp add: demo_env_def demo_polarity_def)
  have p3: "polarity demo_env (JStr ''ok'') = Inr 0.0"
    by (simp add: demo_env_def demo_polarity_def)
  have h: \<open>loads demo_env ''{"author": "a", "message": "great"}'' =
       Inr (JObj [(''author'', JStr ''a''), (''message'', JStr ''great'')]) \<and>
     loads demo_env ''{"author": "b", "message": "bad"}'' =
       Inr (JObj [(''author'', JStr ''b''), (''message'', JStr ''bad'')]) \<and>
     loads demo_env ''{"author": "a", "message": "ok"}'' =
       Inr (JObj [(''author'', JStr ''a''), (''message'', JStr ''ok'')]) \<and>
     polarity demo_env (JStr ''great'') = Inr 0.8 \<and>
     polarity demo_env (JStr ''bad'') = Inr (- 0.6) \<and>
     polarity demo_env (JStr ''ok'') = Inr 0.0\<close>
    using l1 l2 l3 p1 p2 p3 by (intro conjI)
  note t = rendered_average_is_mean [of demo_env "[]", THEN conjunct2, THEN mp, OF h]
  show ?thesis
    using l1 l2 l3 p1 p2 p3 t [THEN conjunct1] t [THEN conjunct2, THEN conjunct2]
    by (intro conjI)
qed

text \<open>
  C6. An exception raised while an event is scored, recorded or drawn is caught by
  \<^verbatim>\<open>process_message\<close>, which logs one error and returns; the tables keep what was
  done before the failure. If the scorer raises, or the author cannot be a key, neither
  table changes. If a chart that was drawn raised, the count and the score of the event
  stay in the tables.
\<close>

theorem processing_failure_recovered:
  assumes "loads e m = Inr (JObj kvs)"
    and "author = dict_get kvs ''author'' (JStr ''unknown'')"
    and "message_text = dict_get kvs ''message'' (JStr '''')"
    and "st' = process_message e m st"
  shows "(analyze_sentiment e message_text = Inl ex \<longrightarrow>
            author_counts st' = author_counts st \<and>
            author_sentiments st' = author_sentiments st \<and>
            charts st' = charts st \<and>
            length (errors_logged st') = length (errors_logged st) + 1) \<and>
         (analyze_sentiment e message_text = Inr s \<and> hash_key author = None \<longrightarrow>
            author_counts st' = author_counts st \<and>
            author_sentiments st' = author_sentiments st \<and>
            charts st' = charts st \<and>
            length (errors_logged st') = length (errors_logged st) + 1) \<and>
         (analyze_sentiment e message_text = Inr s \<and> hash_key author \<noteq> None \<and>
          (\<exists>c \<in> set (charts_since st st'). plot e c \<noteq> None) \<longrightarrow>
            author_counts st' = store (author_counts st) author (count_of (author_counts st) author + 1) \<and>
            author_sentiments st' =
              store (author_sentiments st) author (scores_of (author_sentiments st) author @ [s]) \<and>
            length (errors_logged st') = length (errors_logged st) + 1)"
proof -
  let ?st0 = "logger INFO (ProcessedJSON (JObj kvs)) (logger DEBUG (RawMessage m) st)"
  have scorer: "author_counts st' = author_counts st \<and>
      author_sentiments st' = author_sentiments st \<and> charts st' = charts st \<and>
      length (errors_logged st') = length (errors_logged st) + 1"
    if "analyze_sentiment e message_text = Inl ex"
  proof -
    from that have "analyze_sentiment e (dict_get kvs ''message'' (JStr '''')) = Inl ex"
      by (simp add: assms(3))
    from process_message_scorer_raises [OF assms(1) this]
    have "st' = except_clauses m (Some ex, ?st0)"
      by (simp add: assms(4))
    then show ?thesis
      by (simp add: length_errors_except_clauses errors_logger)
  qed
  have pm: "st' = except_clauses m (record_event e m author s (logger INFO (SentimentScore s) ?st0))"
    if "analyze_sentiment e message_text = Inr s"
  proof -
    from that have "analyze_sentiment e (dict_get kvs ''message'' (JStr '''')) = Inr s"
      by (simp add: assms(3))
    from process_message_object [OF assms(1) this] show ?thesis
      by (simp add: assms(2,4))
  qed
  have key: "author_counts st' = author_counts st \<and>
      author_sentiments st' = author_sentiments st \<and> charts st' = charts st \<and>
      length (errors_logged st') = length (errors_logged st) + 1"
    if "analyze_sentiment e message_text = Inr s" and "hash_key author = None"
    using pm [OF that(1)] that(2)
    by (simp add: record_event_unhashable length_errors_except_clauses errors_logger)
  have plot: "author_counts st' =
        store (author_counts st) author (count_of (author_counts st) author + 1) \<and>
      author_sentiments st' =
        store (author_sentiments st) author (scores_of (author_sentiments st) author @ [s]) \<and>
      length (errors_logged st') = length (errors_logged st) + 1"
    if a: "analyze_sentiment e message_text = Inr s" and h: "hash_key author \<noteq> None"
      and c: "\<exists>c \<in> set (charts_since st st'). plot e c \<noteq> None"
  proof -
    let ?st1 = "logger INFO (SentimentScore s) ?st0"
    obtain x st2 where r: "record_event e m author s ?st1 = (x, st2)"
      by (cases "record_event e m author s ?st1")
    have st': "st' = except_clauses m (x, st2)"
      using pm [OF a] by (simp add: r)
    have "charts_since st st' = charts_since ?st1 (snd (record_event e m author s ?st1))"
      by (simp add: st' r charts_since_def)
    with c have "fst (record_event e m author s ?st1) \<noteq> None"
      by (intro record_event_raises) simp
    then have x: "x \<noteq> None" by (simp add: r)
    have t: "author_sentiments st2 =
          store (author_sentiments st) author (scores_of (author_sentiments st) author @ [s])"
        "author_counts st2 =
          store (author_counts st) author (count_of (author_counts st) author + 1)"
      using record_event_tables [OF h, of e m s ?st1] by (simp_all add: r)
    have "errors_logged st2 = errors_logged st"
      using record_event_errors [of e m author s ?st1] by (simp add: r errors_logger)
    then show ?thesis
      using x t by (simp add: st' length_errors_except_clauses)
  qed
  show ?thesis
    using scorer key plot by blast
qed

theorem processing_failure_witness:
  \<open>loads broken_plot_env ''{"author": "a", "message": "great"}'' =
     Inr (JObj [(''author'', JStr ''a''), (''message'', JStr ''great'')]) \<and>
   analyze_sentiment broken_plot_env (JStr ''great'') = Inr 0.8 \<and>
   hash_key (JStr ''a'') \<noteq> None \<and>
   charts_since init_state
     (process_message broken_plot_env ''{"author": "a", "message": "great"}'' init_state) =
     [CountChart [JStr ''a''] [1]] \<and>
   plot broken_plot_env (CountChart [JStr ''a''] [1]) \<noteq> None \<and>
   author_counts
     (process_message broken_plot_env ''{"author": "a", "message": "great"}'' init_state) =
     [(JStr ''a'', 1)] \<and>
   author_sentiments
     (process_message broken_plot_env ''{"author": "a", "message": "great"}'' init_state) =
     [(JStr ''a'', [0.8])] \<and>
   length (errors_logged
     (process_message broken_plot_env ''{"author": "a", "message": "great"}'' init_state)) = 1\<close>
proof -
  let ?m = \<open>''{"author": "a", "message": "great"}''\<close>
  let ?kvs = "[(''author'', JStr ''a''), (''message'', JStr ''great'')]"
  have l: "loads broken_plot_env ?m = Inr (JObj ?kvs)"
    by (simp add: broken_plot_env_def demo_env_def demo_loads_def demo_payloads_def)
  have a: "analyze_sentiment broken_plot_env (JStr ''great'') = Inr 0.8"
    by (simp add: analyze_sentiment_def broken_plot_env_def demo_env_def demo_polarity_def)
  have a': "analyze_sentiment broken_plot_env (dict_get ?kvs ''message'' (JStr '''')) = Inr 0.8"
    using a by (simp add: dict_get_def)
  have p: "plot broken_plot_env (CountChart [JStr ''a''] [1]) \<noteq> None"
    by (simp add: broken_plot_env_def)
  have c: "charts_since init_state (process_message broken_plot_env ?m init_state) =
      [CountChart [JStr ''a''] [1]]"
    unfolding process_message_object [OF l a']
    by (simp add: record_event_def dict_get_def
        append_score_def increment_def defaultdict_getitem_def update_chart_def Let_def
        broken_plot_env_def except_clauses_def charts_since_def logger_def init_state_def)
  have ex: "\<exists>c \<in> set (charts_since init_state (process_message broken_plot_env ?m init_state)).
      plot broken_plot_env c \<noteq> None"
    using p by (simp add: c)
  note t = processing_failure_recovered [OF l refl refl refl, where s = "0.8" and st = init_state,
      THEN conjunct2, THEN conjunct2, THEN mp]
  have "author_counts (process_message broken_plot_env ?m init_state) = [(JStr ''a'', 1)] \<and>
     author_sentiments (process_message broken_plot_env ?m init_state) = [(JStr ''a'', [0.8])] \<and>
     length (errors_logged (process_message broken_plot_env ?m init_state)) = 1"
    using t a' ex
    by (simp add: dict_get_def init_state_def count_of_def scores_of_def errors_logged_def)
  then show ?thesis
    using l a p c by simp
qed

text \<open>
  C7. No record stops the driver loop. \<^verbatim>\<open>main\<close> runs the loop on the state it has
  logged its start in, closes the consumer and logs the end. The loop hands every record
  that comes before the end of the stream, a \<^verbatim>\<open>KeyboardInterrupt\<close> or an exception of
  the consumer itself to \<^verbatim>\<open>process_message\<close>, in order, whatever the earlier records
  did; records never cut that sequence short. So after \<^verbatim>\<open>main\<close> the tables are those of
  processing all these payloads, each of them has been handled, and the consumer is
  closed, on each of the three ways out of the loop.
\<close>

theorem loop_survives_events_and_closes:
  "main e items st =
     logger INFO (EndConsumer (getenv e ''BUZZ_TOPIC'' ''unknown_topic'')
         (getenv e ''BUZZ_CONSUMER_GROUP_ID'' ''default_group''))
       (logger INFO (ConsumerClosed (getenv e ''BUZZ_TOPIC'' ''unknown_topic''))
         ((poll e items
            (logger INFO (Polling (getenv e ''BUZZ_TOPIC'' ''unknown_topic''))
              (logger INFO (ConsumerTopicGroup (getenv e ''BUZZ_TOPIC'' ''unknown_topic'')
                  (getenv e ''BUZZ_CONSUMER_GROUP_ID'' ''default_group''))
                (logger INFO (KafkaGroup (getenv e ''BUZZ_CONSUMER_GROUP_ID'' ''default_group''))
                  (logger INFO (KafkaTopic (getenv e ''BUZZ_TOPIC'' ''unknown_topic''))
                    (logger INFO StartConsumer st))))))
          \<lparr>consumer_closed := True\<rparr>)) \<and>
   poll e items st =
     (foldl (loop_body e) st (records_before items))
       \<lparr>logs := logs (foldl (loop_body e) st (records_before items)) @ loop_end items\<rparr> \<and>
   records_before (records rs @ items) = rs @ records_before items \<and>
   author_counts (main e items st) =
     author_counts (run e (map snd (records_before items)) st) \<and>
   author_sentiments (main e items st) =
     author_sentiments (run e (map snd (records_before items)) st) \<and>
   payloads_handled (main e items st) = payloads_handled st @ map snd (records_before items) \<and>
   consumer_closed (main e items st)"
proof -
  let ?T = "getenv e ''BUZZ_TOPIC'' ''unknown_topic''"
  let ?G = "getenv e ''BUZZ_CONSUMER_GROUP_ID'' ''default_group''"
  let ?st5 = "logger INFO (Polling ?T)
      (logger INFO (ConsumerTopicGroup ?T ?G)
        (logger INFO (KafkaGroup ?G)
          (logger INFO (KafkaTopic ?T) (logger INFO StartConsumer st))))"
  let ?loop = "foldl (loop_body e) ?st5 (records_before items)"
  have m: "main e items st =
      logger INFO (EndConsumer ?T ?G)
        (logger INFO (ConsumerClosed ?T) ((poll e items ?st5)\<lparr>consumer_closed := True\<rparr>))"
    by (simp add: main_def get_kafka_topic_def get_kafka_consumer_group_id_def Let_def)
  have p: "poll e items ?st5 = ?loop\<lparr>logs := logs ?loop @ loop_end items\<rparr>"
    by (rule poll_loop)
  have c: "author_counts (main e items st) =
      author_counts (run e (map snd (records_before items)) st)"
    by (simp add: m p tables_foldl_loop_body run_counts)
  have s: "author_sentiments (main e items st) =
      author_sentiments (run e (map snd (records_before items)) st)"
    by (simp add: m p tables_foldl_loop_body run_sentiments)
  have h: "payloads_handled (main e items st) =
      payloads_handled st @ map snd (records_before items)"
    by (simp add: m p payloads_logger payloads_logs_appended payloads_foldl_loop_body)
  have cl: "consumer_closed (main e items st)"
    by (simp add: m)
  show ?thesis
    using m poll_loop [of e items st] records_before_records [of rs items] c s h cl
    by (intro conjI)
qed

text \<open>
  An undecodable payload and an event that raises are followed by an event that is
  counted; the record after the interrupt is not read, and the consumer is closed.
\<close>

theorem loop_survives_witness:
  \<open>author_counts (main demo_env
      [Record 0 ''not json'', Record 1 ''{"message": 5}'', Record 2 ''{}'',
       KeyboardInterrupt, Record 3 ''{}''] init_state) = [(JStr ''unknown'', 1)] \<and>
   payloads_handled (main demo_env
      [Record 0 ''not json'', Record 1 ''{"message": 5}'', Record 2 ''{}'',
       KeyboardInterrupt, Record 3 ''{}''] init_state) =
     [''not json'', ''{"message": 5}'', ''{}''] \<and>
   consumer_closed (main demo_env
      [Record 0 ''not json'', Record 1 ''{"message": 5}'', Record 2 ''{}'',
       KeyboardInterrupt, Record 3 ''{}''] init_state)\<close>
proof -
  let ?items = \<open>[Record 0 ''not json'', Record 1 ''{"message": 5}'', Record 2 ''{}'',
       KeyboardInterrupt, Record 3 ''{}'']\<close>
  note t = loop_survives_events_and_closes [of demo_env ?items init_state]
  have r1: "recorded demo_env ''not json'' = None"
    by (simp add: recorded_def demo_env_def demo_loads_def demo_payloads_def)
  have r2: \<open>recorded demo_env ''{"message": 5}'' = None\<close>
    by (simp add: recorded_def demo_env_def demo_loads_def demo_payloads_def
        analyze_sentiment_def demo_polarity_def dict_get_def)
  have r3: "recorded demo_env ''{}'' = Some (JStr ''unknown'', 0)"
    by (simp add: recorded_def demo_env_def demo_loads_def demo_payloads_def
        analyze_sentiment_def demo_polarity_def dict_get_def)
  have c: "author_counts (main demo_env ?items init_state) = [(JStr ''unknown'', 1)]"
    using t [THEN conjunct2, THEN conjunct2, THEN conjunct2, THEN conjunct1]
    by (simp add: process_message_tables r1 r2 r3 put_count_def count_of_def init_state_def)
  have h: \<open>payloads_handled (main demo_env ?items init_state) =
      [''not json'', ''{"message": 5}'', ''{}'']\<close>
    using t [THEN conjunct2, THEN conjunct2, THEN conjunct2, THEN conjunct2, THEN conjunct2,
        THEN conjunct1]
    by (simp add: payloads_handled_def init_state_def)
  have cl: "consumer_closed (main demo_env ?items init_state)"
    using t [THEN conjunct2, THEN conjunct2, THEN conjunct2, THEN conjunct2, THEN conjunct2,
        THEN conjunct2] .
  show ?thesis
    using c h cl by (intro conjI)
qed

text \<open>
  C8. The keys of the count table, which label the count chart, are the authors of the
  recorded events in the order of their first appearance; a later event of an author that
  is already a key leaves the order as it is. The sentiment chart is labelled with the
  same keys in the same order.
\<close>

theorem keys_in_order_of_first_appearance:
  "map fst (author_counts (run e ms init_state)) = first_appearance (authors_recorded e ms) \<and>
   map fst (author_sentiments (run e ms init_state)) = first_appearance (authors_recorded e ms) \<and>
   map labels (charts_since (run e ms init_state) (snd (update_chart e (run e ms init_state)))) =
     [first_appearance (authors_recorded e ms)] \<and>
   map labels (charts_since (run e ms init_state)
       (snd (update_sentiment_chart e (run e ms init_state)))) =
     [first_appearance (authors_recorded e ms)] \<and>
   first_appearance (authors_recorded e ms @ [a]) =
     (if hash_key a \<in> set (map hash_key (first_appearance (authors_recorded e ms)))
      then first_appearance (authors_recorded e ms)
      else first_appearance (authors_recorded e ms) @ [a])"
proof -
  let ?st = "run e ms init_state"
  have s: "map fst (author_sentiments ?st) = first_appearance (authors_recorded e ms)"
    by (simp add: run_sentiments keys_foldl_put_score first_appearance_def init_state_def)
  have c: "map fst (author_counts ?st) = first_appearance (authors_recorded e ms)"
    using s by (simp add: reachable_counted keys_counted)
  have uc: "map labels (charts_since ?st (snd (update_chart e ?st))) =
      [first_appearance (authors_recorded e ms)]"
    by (simp add: update_chart_def Let_def c)
  have av: "averages (map snd (author_sentiments ?st)) =
      Inr (map (\<lambda>p. mean (snd p)) (author_sentiments ?st))"
    using reachable_nonempty [of e ms] by (rule averages_nonempty)
  have us: "map labels (charts_since ?st (snd (update_sentiment_chart e ?st))) =
      [first_appearance (authors_recorded e ms)]"
    by (simp add: update_sentiment_chart_def Let_def av s)
  have fa: "first_appearance (authors_recorded e ms @ [a]) =
     (if hash_key a \<in> set (map hash_key (first_appearance (authors_recorded e ms)))
      then first_appearance (authors_recorded e ms)
      else first_appearance (authors_recorded e ms) @ [a])"
    by (simp add: first_appearance_def add_key_def)
  show ?thesis
    using s c uc us fa by (intro conjI)
qed




end
